theory Spec2Isabelle
  imports Complex_Main
begin

section \<open>Task manager: domain entities, DTOs and application services\<close>

text \<open>
  A shallow embedding of \<^verbatim>\<open>src/domain/entities.py\<close>, \<^verbatim>\<open>src/domain/exceptions.py\<close>,
  \<^verbatim>\<open>src/domain/repositories.py\<close>, \<^verbatim>\<open>src/application/dto.py\<close> and
  \<^verbatim>\<open>src/application/services.py\<close> (whose \<^verbatim>\<open>AuthService\<close> is repeated verbatim in
  \<^verbatim>\<open>src/application/auth_service.py\<close>).

  Conventions.
  \<^item> A \<^verbatim>\<open>datetime\<close> is a naive UTC instant, an \<open>int\<close>; every service function takes the
    reading of \<^verbatim>\<open>datetime.utcnow()\<close> as its argument \<open>now\<close>.
  \<^item> A Python \<^verbatim>\<open>float\<close> is a \<open>real\<close>: the arithmetic is exact, binary rounding is not
    modelled.
  \<^item> An exception is a value of \<open>exn\<close>; a service method is a function from the
    persistence state to a result \<open>exn + 'a\<close> and the state it leaves behind.
  \<^item> The abstract repository classes are records of operations over a persistence state
    \<open>'s\<close>; the services are written against these records, as the Python services are
    written against the abstract classes. Reads leave the state alone.
  \<^item> A pydantic model with a required field (\<^verbatim>\<open>id: int\<close>, \<^verbatim>\<open>created_at: datetime\<close>) refuses
    \<^verbatim>\<open>None\<close> there: the constructors of the response DTOs return
    \<open>Inl PydanticValidationError\<close> in that case.
\<close>

subsection \<open>Enumerations and entities (\<^verbatim>\<open>domain/entities.py\<close>)\<close>

datatype TaskStatus = PENDING | IN_PROGRESS | COMPLETED | CANCELLED

datatype TaskPriority = LOW | MEDIUM | HIGH | CRITICAL

type_synonym datetime = int

record User =
  u_id :: "int option"
  u_email :: string
  u_username :: string
  u_full_name :: "string option"
  u_hashed_password :: string
  u_is_active :: bool
  u_created_at :: "datetime option"
  u_updated_at :: "datetime option"

text \<open>The relationship fields \<^verbatim>\<open>Task.task_list\<close>, \<^verbatim>\<open>Task.assignee\<close> and \<^verbatim>\<open>TaskList.owner\<close>
  are never read by the services and are left out; \<^verbatim>\<open>TaskList.tasks\<close> is kept.\<close>

record Task =
  t_id :: "int option"
  t_title :: string
  t_description :: "string option"
  t_status :: TaskStatus
  t_priority :: TaskPriority
  t_task_list_id :: int
  t_assigned_to :: "int option"
  t_created_at :: "datetime option"
  t_updated_at :: "datetime option"
  t_due_date :: "datetime option"

record TaskList =
  tl_id :: "int option"
  tl_name :: string
  tl_description :: "string option"
  tl_owner_id :: int
  tl_created_at :: "datetime option"
  tl_updated_at :: "datetime option"
  tl_tasks :: "Task list"

text \<open>\<^verbatim>\<open>Task.is_overdue\<close>: a \<^verbatim>\<open>datetime\<close> is always truthy, so \<^verbatim>\<open>not self.due_date\<close> holds
  for \<^verbatim>\<open>None\<close> only.\<close>

definition is_overdue :: "datetime \<Rightarrow> Task \<Rightarrow> bool" where
  "is_overdue now self =
     (case t_due_date self of
        None \<Rightarrow> False
      | Some due_date \<Rightarrow> now > due_date \<and> t_status self \<noteq> COMPLETED)"

text \<open>\<^verbatim>\<open>sum(1 for task in tasks if task.status == TaskStatus.COMPLETED)\<close>\<close>

definition completed_tasks :: "Task list \<Rightarrow> nat" where
  "completed_tasks tasks =
     sum_list (map (\<lambda>task. 1) (filter (\<lambda>task. t_status task = COMPLETED) tasks))"

text \<open>\<^verbatim>\<open>TaskList.calculate_completion_percentage\<close>\<close>

definition calculate_completion_percentage :: "TaskList \<Rightarrow> real" where
  "calculate_completion_percentage self =
     (if tl_tasks self = [] then 0
      else (real (completed_tasks (tl_tasks self)) / real (length (tl_tasks self))) * 100)"

subsection \<open>Exceptions (\<^verbatim>\<open>domain/exceptions.py\<close>)\<close>

text \<open>Each constructor carries the argument its Python constructor is called with.
  \<open>AttributeError\<close> is what reading \<^verbatim>\<open>.owner_id\<close> of \<^verbatim>\<open>None\<close> raises; \<open>ForeignException\<close>
  stands for whatever an injected collaborator raises.\<close>

datatype exn =
    TaskListNotFoundError int
  | TaskNotFoundError int
  | UserNotFoundError int
  | EmailAlreadyExistsError string
  | UsernameAlreadyExistsError string
  | AuthenticationError string
  | AuthorizationError string
  | TaskAssignmentError string
  | PydanticValidationError
  | AttributeError
  | ForeignException string

subsection \<open>Data transfer objects (\<^verbatim>\<open>application/dto.py\<close>)\<close>

record UserCreateDTO =
  uc_email :: string
  uc_username :: string
  uc_full_name :: "string option"
  uc_password :: string

record UserResponseDTO =
  ur_id :: int
  ur_email :: string
  ur_username :: string
  ur_full_name :: "string option"
  ur_is_active :: bool
  ur_created_at :: datetime
  ur_updated_at :: "datetime option"

record LoginDTO =
  l_email :: string
  l_password :: string

record TokenResponseDTO =
  access_token :: string
  token_type :: string
  expires_in :: int

record TaskListUpdateDTO =
  tlu_name :: "string option"
  tlu_description :: "string option"

record TaskListResponseDTO =
  tlr_id :: int
  tlr_name :: string
  tlr_description :: "string option"
  tlr_owner_id :: int
  tlr_created_at :: datetime
  tlr_updated_at :: "datetime option"
  tlr_completion_percentage :: real
  tlr_task_count :: nat

record TaskCreateDTO =
  tc_title :: string
  tc_description :: "string option"
  tc_task_list_id :: int
  tc_priority :: TaskPriority
  tc_assigned_to :: "int option"
  tc_due_date :: "datetime option"

record TaskUpdateDTO =
  tu_title :: "string option"
  tu_description :: "string option"
  tu_priority :: "TaskPriority option"
  tu_assigned_to :: "int option"
  tu_due_date :: "datetime option"

record TaskResponseDTO =
  tr_id :: int
  tr_title :: string
  tr_description :: "string option"
  tr_status :: TaskStatus
  tr_priority :: TaskPriority
  tr_task_list_id :: int
  tr_assigned_to :: "int option"
  tr_created_at :: datetime
  tr_updated_at :: "datetime option"
  tr_due_date :: "datetime option"
  tr_is_overdue :: bool
  tr_assignee :: "UserResponseDTO option"

record TaskListWithTasksDTO =
  tlw_id :: int
  tlw_name :: string
  tlw_description :: "string option"
  tlw_owner_id :: int
  tlw_created_at :: datetime
  tlw_updated_at :: "datetime option"
  tlw_completion_percentage :: real
  tlw_tasks :: "TaskResponseDTO list"

record PaginationDTO =
  skip :: nat
  limit :: nat

record TaskFilterDTO =
  f_status :: "TaskStatus option"
  f_priority :: "TaskPriority option"
  f_assigned_to :: "int option"
  f_overdue_only :: bool

record EmailNotificationDTO =
  to_email :: string
  subject :: string
  body :: string
  n_task_id :: "int option"
  n_user_id :: "int option"

text \<open>The constructor calls of the response DTOs, as the services write them. The
  \<^verbatim>\<open>is_overdue\<close> argument of \<^verbatim>\<open>TaskResponseDTO\<close> is always \<^verbatim>\<open>task.is_overdue()\<close>.\<close>

definition UserResponseDTO_of :: "User \<Rightarrow> exn + UserResponseDTO" where
  "UserResponseDTO_of user =
     (case (u_id user, u_created_at user) of
        (Some i, Some c) \<Rightarrow>
          Inr \<lparr>ur_id = i, ur_email = u_email user, ur_username = u_username user,
               ur_full_name = u_full_name user, ur_is_active = u_is_active user,
               ur_created_at = c, ur_updated_at = u_updated_at user\<rparr>
      | _ \<Rightarrow> Inl PydanticValidationError)"

definition TaskResponseDTO_of ::
  "datetime \<Rightarrow> Task \<Rightarrow> UserResponseDTO option \<Rightarrow> exn + TaskResponseDTO" where
  "TaskResponseDTO_of now task assignee =
     (case (t_id task, t_created_at task) of
        (Some i, Some c) \<Rightarrow>
          Inr \<lparr>tr_id = i, tr_title = t_title task, tr_description = t_description task,
               tr_status = t_status task, tr_priority = t_priority task,
               tr_task_list_id = t_task_list_id task, tr_assigned_to = t_assigned_to task,
               tr_created_at = c, tr_updated_at = t_updated_at task,
               tr_due_date = t_due_date task, tr_is_overdue = is_overdue now task,
               tr_assignee = assignee\<rparr>
      | _ \<Rightarrow> Inl PydanticValidationError)"

definition TaskListResponseDTO_of :: "TaskList \<Rightarrow> real \<Rightarrow> nat \<Rightarrow> exn + TaskListResponseDTO" where
  "TaskListResponseDTO_of task_list completion_percentage task_count =
     (case (tl_id task_list, tl_created_at task_list) of
        (Some i, Some c) \<Rightarrow>
          Inr \<lparr>tlr_id = i, tlr_name = tl_name task_list,
               tlr_description = tl_description task_list,
               tlr_owner_id = tl_owner_id task_list, tlr_created_at = c,
               tlr_updated_at = tl_updated_at task_list,
               tlr_completion_percentage = completion_percentage,
               tlr_task_count = task_count\<rparr>
      | _ \<Rightarrow> Inl PydanticValidationError)"

definition TaskListWithTasksDTO_of ::
  "TaskList \<Rightarrow> real \<Rightarrow> TaskResponseDTO list \<Rightarrow> exn + TaskListWithTasksDTO" where
  "TaskListWithTasksDTO_of task_list completion_percentage tasks =
     (case (tl_id task_list, tl_created_at task_list) of
        (Some i, Some c) \<Rightarrow>
          Inr \<lparr>tlw_id = i, tlw_name = tl_name task_list,
               tlw_description = tl_description task_list,
               tlw_owner_id = tl_owner_id task_list, tlw_created_at = c,
               tlw_updated_at = tl_updated_at task_list,
               tlw_completion_percentage = completion_percentage,
               tlw_tasks = tasks\<rparr>
      | _ \<Rightarrow> Inl PydanticValidationError)"

subsection \<open>Repository interfaces (\<^verbatim>\<open>domain/repositories.py\<close>)\<close>

text \<open>The abstract classes, with the methods the services call. \<open>'s\<close> is the state of
  the persistence layer behind them.\<close>

record 's UserRepository =
  user_create :: "'s \<Rightarrow> User \<Rightarrow> User \<times> 's"
  user_get_by_id :: "'s \<Rightarrow> int \<Rightarrow> User option"
  user_get_by_email :: "'s \<Rightarrow> string \<Rightarrow> User option"
  user_get_by_username :: "'s \<Rightarrow> string \<Rightarrow> User option"

record 's TaskListRepository =
  task_list_create :: "'s \<Rightarrow> TaskList \<Rightarrow> TaskList \<times> 's"
  task_list_get_by_id :: "'s \<Rightarrow> int \<Rightarrow> TaskList option"
  task_list_get_by_owner :: "'s \<Rightarrow> int \<Rightarrow> nat \<Rightarrow> nat \<Rightarrow> TaskList list"
  task_list_update :: "'s \<Rightarrow> TaskList \<Rightarrow> TaskList \<times> 's"
  task_list_delete :: "'s \<Rightarrow> int \<Rightarrow> bool \<times> 's"

record 's TaskRepository =
  task_create :: "'s \<Rightarrow> Task \<Rightarrow> Task \<times> 's"
  task_get_by_id :: "'s \<Rightarrow> int \<Rightarrow> Task option"
  task_get_by_task_list ::
    "'s \<Rightarrow> int \<Rightarrow> nat \<Rightarrow> nat \<Rightarrow> TaskStatus option \<Rightarrow> TaskPriority option \<Rightarrow> Task list"
  task_update :: "'s \<Rightarrow> Task \<Rightarrow> Task \<times> 's"
  task_delete :: "'s \<Rightarrow> int \<Rightarrow> bool \<times> 's"
  task_update_status :: "'s \<Rightarrow> int \<Rightarrow> TaskStatus \<Rightarrow> Task \<times> 's"

text \<open>The defaults of \<^verbatim>\<open>TaskRepository.get_by_task_list\<close>
  (\<^verbatim>\<open>skip: int = 0, limit: int = 100, status = None, priority = None\<close>), which a call
  with the task list id alone takes.\<close>

definition default_skip :: nat where
  "default_skip = 0"

definition default_limit :: nat where
  "default_limit = 100"

subsection \<open>\<^verbatim>\<open>NotificationService\<close>\<close>

text \<open>\<^verbatim>\<open>NotificationService.send_email_notification\<close> logs and returns whether e-mail is
  enabled. The services receive their notification service by injection, so there it is
  any function of this type, and one that may raise.\<close>

type_synonym notification_service = "EmailNotificationDTO \<Rightarrow> exn + bool"

definition send_email_notification :: "bool \<Rightarrow> notification_service" where
  "send_email_notification email_enabled notification =
     (if \<not> email_enabled then Inr False else Inr True)"

subsection \<open>\<^verbatim>\<open>AuthService\<close>\<close>

text \<open>\<open>pwd_hash\<close> and \<open>pwd_verify\<close> are passlib's \<^verbatim>\<open>CryptContext.hash\<close> and
  \<^verbatim>\<open>CryptContext.verify\<close>; \<open>jwt_encode sub exp\<close> is \<^verbatim>\<open>jwt.encode\<close> of the claims
  \<^verbatim>\<open>{"sub": str(user.id), "exp": expire}\<close> under the service's key and algorithm.\<close>

record 's AuthService =
  auth_user_repository :: "'s UserRepository"
  access_token_expire_minutes :: int
  pwd_hash :: "string \<Rightarrow> string"
  pwd_verify :: "string \<Rightarrow> string \<Rightarrow> bool"
  jwt_encode :: "int option \<Rightarrow> datetime \<Rightarrow> string"

definition create_access_token :: "'s AuthService \<Rightarrow> datetime \<Rightarrow> int option \<Rightarrow> string" where
  "create_access_token self now sub =
     (let expire = now + access_token_expire_minutes self * 60
      in jwt_encode self sub expire)"

definition register_user ::
  "'s AuthService \<Rightarrow> datetime \<Rightarrow> 's \<Rightarrow> UserCreateDTO \<Rightarrow> (exn + UserResponseDTO) \<times> 's" where
  "register_user self now s user_data =
     (case user_get_by_email (auth_user_repository self) s (uc_email user_data) of
        Some existing_user \<Rightarrow> (Inl (EmailAlreadyExistsError (uc_email user_data)), s)
      | None \<Rightarrow>
          (case user_get_by_username (auth_user_repository self) s (uc_username user_data) of
             Some existing_username \<Rightarrow>
               (Inl (UsernameAlreadyExistsError (uc_username user_data)), s)
           | None \<Rightarrow>
               (let hashed_password = pwd_hash self (uc_password user_data);
                    user = \<lparr>u_id = None, u_email = uc_email user_data,
                            u_username = uc_username user_data,
                            u_full_name = uc_full_name user_data,
                            u_hashed_password = hashed_password, u_is_active = True,
                            u_created_at = Some now, u_updated_at = None\<rparr>;
                    (created_user, s') = user_create (auth_user_repository self) s user
                in (UserResponseDTO_of created_user, s'))))"

text \<open>\<^verbatim>\<open>authenticate_user\<close>: \<^verbatim>\<open>login_data.email\<close> holds the e-mail or the username. The
  user is looked up by e-mail, and by username when the e-mail lookup finds nobody.\<close>

definition authenticate_user ::
  "'s AuthService \<Rightarrow> datetime \<Rightarrow> 's \<Rightarrow> LoginDTO \<Rightarrow> (exn + TokenResponseDTO) \<times> 's" where
  "authenticate_user self now s login_data =
     (let user = (case user_get_by_email (auth_user_repository self) s (l_email login_data) of
                    Some u \<Rightarrow> Some u
                  | None \<Rightarrow>
                      user_get_by_username (auth_user_repository self) s (l_email login_data))
      in case user of
           None \<Rightarrow> (Inl (AuthenticationError ''Invalid credentials''), s)
         | Some user \<Rightarrow>
             if \<not> pwd_verify self (l_password login_data) (u_hashed_password user)
             then (Inl (AuthenticationError ''Invalid credentials''), s)
             else if \<not> u_is_active user
             then (Inl (AuthenticationError ''User account is inactive''), s)
             else (Inr \<lparr>access_token = create_access_token self now (u_id user),
                         token_type = ''bearer'',
                         expires_in = access_token_expire_minutes self * 60\<rparr>, s))"

subsection \<open>Python truthiness\<close>

text \<open>\<^verbatim>\<open>if x:\<close> on an \<^verbatim>\<open>Optional[int]\<close> is false for \<^verbatim>\<open>None\<close> and for \<^verbatim>\<open>0\<close>; on an
  \<^verbatim>\<open>Optional[str]\<close> it is false for \<^verbatim>\<open>None\<close> and for the empty string, which is when
  \<^verbatim>\<open>x or d\<close> is \<^verbatim>\<open>d\<close>.\<close>

definition truthy_int :: "int option \<Rightarrow> bool" where
  "truthy_int x = (case x of None \<Rightarrow> False | Some n \<Rightarrow> n \<noteq> 0)"

definition str_or :: "string option \<Rightarrow> string \<Rightarrow> string" where
  "str_or x d = (case x of None \<Rightarrow> d | Some w \<Rightarrow> if w = [] then d else w)"

subsection \<open>\<^verbatim>\<open>TaskListService\<close>\<close>

record 's TaskListService =
  tls_task_list_repository :: "'s TaskListRepository"
  tls_task_repository :: "'s TaskRepository"
  tls_notification_service :: notification_service

text \<open>The loop \<^verbatim>\<open>for task in tasks: task_responses.append(TaskResponseDTO(...))\<close> of
  \<^verbatim>\<open>get_task_list\<close> and \<^verbatim>\<open>list_tasks\<close>.\<close>

fun task_response_list :: "datetime \<Rightarrow> Task list \<Rightarrow> exn + TaskResponseDTO list" where
  "task_response_list now [] = Inr []"
| "task_response_list now (task # tasks) =
     (case TaskResponseDTO_of now task None of
        Inl e \<Rightarrow> Inl e
      | Inr r \<Rightarrow>
          (case task_response_list now tasks of
             Inl e \<Rightarrow> Inl e
           | Inr rs \<Rightarrow> Inr (r # rs)))"

text \<open>The block \<^verbatim>\<open># Calculate completion percentage\<close> of \<^verbatim>\<open>get_task_list\<close> and of
  \<^verbatim>\<open>list_user_task_lists\<close>.\<close>

definition completion_percentage_of :: "Task list \<Rightarrow> real" where
  "completion_percentage_of tasks =
     (if tasks \<noteq> [] then (real (completed_tasks tasks) / real (length tasks)) * 100 else 0)"

definition get_task_list ::
  "'s TaskListService \<Rightarrow> datetime \<Rightarrow> 's \<Rightarrow> int \<Rightarrow> int \<Rightarrow> (exn + TaskListWithTasksDTO) \<times> 's" where
  "get_task_list self now s task_list_id user_id =
     (case task_list_get_by_id (tls_task_list_repository self) s task_list_id of
        None \<Rightarrow> (Inl (TaskListNotFoundError task_list_id), s)
      | Some task_list \<Rightarrow>
          if tl_owner_id task_list \<noteq> user_id
          then (Inl (AuthorizationError ''You don't have access to this task list''), s)
          else
            (let tasks = task_get_by_task_list (tls_task_repository self) s task_list_id
                           default_skip default_limit None None
             in case task_response_list now tasks of
                  Inl e \<Rightarrow> (Inl e, s)
                | Inr task_responses \<Rightarrow>
                    (TaskListWithTasksDTO_of task_list (completion_percentage_of tasks)
                       task_responses, s)))"

text \<open>The block \<^verbatim>\<open># Update fields\<close> of \<^verbatim>\<open>update_task_list\<close>, with the time stamp that
  follows it.\<close>

definition apply_task_list_update :: "datetime \<Rightarrow> TaskList \<Rightarrow> TaskListUpdateDTO \<Rightarrow> TaskList" where
  "apply_task_list_update now task_list update_data =
     (let task_list1 = (case tlu_name update_data of
                          None \<Rightarrow> task_list
                        | Some x \<Rightarrow> task_list\<lparr>tl_name := x\<rparr>);
          task_list2 = (case tlu_description update_data of
                          None \<Rightarrow> task_list1
                        | Some x \<Rightarrow> task_list1\<lparr>tl_description := Some x\<rparr>)
      in task_list2\<lparr>tl_updated_at := Some now\<rparr>)"

definition update_task_list ::
  "'s TaskListService \<Rightarrow> datetime \<Rightarrow> 's \<Rightarrow> int \<Rightarrow> TaskListUpdateDTO \<Rightarrow> int \<Rightarrow>
     (exn + TaskListResponseDTO) \<times> 's" where
  "update_task_list self now s task_list_id update_data user_id =
     (case task_list_get_by_id (tls_task_list_repository self) s task_list_id of
        None \<Rightarrow> (Inl (TaskListNotFoundError task_list_id), s)
      | Some task_list \<Rightarrow>
          if tl_owner_id task_list \<noteq> user_id
          then (Inl (AuthorizationError ''You don't have access to this task list''), s)
          else
            (let (updated_task_list, s') =
                    task_list_update (tls_task_list_repository self) s
                      (apply_task_list_update now task_list update_data)
             in (TaskListResponseDTO_of updated_task_list
                   (calculate_completion_percentage updated_task_list) 0, s')))"

definition delete_task_list ::
  "'s TaskListService \<Rightarrow> 's \<Rightarrow> int \<Rightarrow> int \<Rightarrow> (exn + bool) \<times> 's" where
  "delete_task_list self s task_list_id user_id =
     (case task_list_get_by_id (tls_task_list_repository self) s task_list_id of
        None \<Rightarrow> (Inl (TaskListNotFoundError task_list_id), s)
      | Some task_list \<Rightarrow>
          if tl_owner_id task_list \<noteq> user_id
          then (Inl (AuthorizationError ''You don't have access to this task list''), s)
          else
            (let (result, s') = task_list_delete (tls_task_list_repository self) s task_list_id
             in (Inr result, s')))"

text \<open>The loop of \<^verbatim>\<open>list_user_task_lists\<close>. A task list without id makes the
  \<^verbatim>\<open>TaskListResponseDTO\<close> of its round fail whatever the repository answers for it, and the
  read before it changes nothing: that round is the validation error.\<close>

fun list_user_task_lists_loop ::
  "'s TaskListService \<Rightarrow> 's \<Rightarrow> TaskList list \<Rightarrow> exn + TaskListResponseDTO list" where
  "list_user_task_lists_loop self s [] = Inr []"
| "list_user_task_lists_loop self s (task_list # task_lists) =
     (case tl_id task_list of
        None \<Rightarrow> Inl PydanticValidationError
      | Some i \<Rightarrow>
          (let tasks = task_get_by_task_list (tls_task_repository self) s i
                         default_skip default_limit None None
           in case TaskListResponseDTO_of task_list (completion_percentage_of tasks)
                     (length tasks) of
                Inl e \<Rightarrow> Inl e
              | Inr r \<Rightarrow>
                  (case list_user_task_lists_loop self s task_lists of
                     Inl e \<Rightarrow> Inl e
                   | Inr rs \<Rightarrow> Inr (r # rs))))"

definition list_user_task_lists ::
  "'s TaskListService \<Rightarrow> 's \<Rightarrow> int \<Rightarrow> PaginationDTO \<Rightarrow> (exn + TaskListResponseDTO list) \<times> 's" where
  "list_user_task_lists self s user_id pagination =
     (let task_lists = task_list_get_by_owner (tls_task_list_repository self) s user_id
                         (skip pagination) (limit pagination)
      in (list_user_task_lists_loop self s task_lists, s))"

subsection \<open>\<^verbatim>\<open>TaskService\<close>\<close>

record 's TaskService =
  ts_task_repository :: "'s TaskRepository"
  ts_task_list_repository :: "'s TaskListRepository"
  ts_user_repository :: "'s UserRepository"
  ts_notification_service :: notification_service

text \<open>\<^verbatim>\<open>TaskService._send_assignment_notification\<close>: nothing guards the call of the
  notification service, so what it raises leaves this method.\<close>

definition send_assignment_notification :: "'s TaskService \<Rightarrow> 's \<Rightarrow> Task \<Rightarrow> exn + unit" where
  "send_assignment_notification self s task =
     (case t_assigned_to task of
        None \<Rightarrow> Inr ()
      | Some assigned_to \<Rightarrow>
          if assigned_to = 0 then Inr ()
          else
            (case user_get_by_id (ts_user_repository self) s assigned_to of
               None \<Rightarrow> Inr ()
             | Some assignee \<Rightarrow>
                 (let notification =
                        \<lparr>to_email = u_email assignee,
                         subject = ''Task Assigned: '' @ t_title task,
                         body = ''You have been assigned a new task: '' @ t_title task
                                @ [CHR 0x0A, CHR 0x0A] @ ''Description: ''
                                @ str_or (t_description task) ''No description'',
                         n_task_id = t_id task, n_user_id = u_id assignee\<rparr>
                  in case ts_notification_service self notification of
                       Inl e \<Rightarrow> Inl e
                     | Inr sent \<Rightarrow> Inr ())))"

text \<open>The block \<^verbatim>\<open># Verify assignee if provided\<close> of \<^verbatim>\<open>create_task\<close> and of
  \<^verbatim>\<open>update_task\<close>: the exception it raises, if any. The guard is
  \<^verbatim>\<open>if task_data.assigned_to:\<close>, a truthiness test.\<close>

definition verify_assignee :: "'s TaskService \<Rightarrow> 's \<Rightarrow> int option \<Rightarrow> exn option" where
  "verify_assignee self s assigned_to =
     (case assigned_to of
        None \<Rightarrow> None
      | Some a \<Rightarrow>
          if a = 0 then None
          else
            (case user_get_by_id (ts_user_repository self) s a of
               None \<Rightarrow> Some (UserNotFoundError a)
             | Some assignee \<Rightarrow>
                 if \<not> u_is_active assignee
                 then Some (TaskAssignmentError ''Cannot assign task to inactive user'')
                 else None))"

text \<open>The constructor call \<^verbatim>\<open>Task(...)\<close> of \<^verbatim>\<open>create_task\<close>; \<^verbatim>\<open>id\<close>, \<^verbatim>\<open>status\<close> and
  \<^verbatim>\<open>updated_at\<close> take their defaults.\<close>

definition new_task :: "datetime \<Rightarrow> int \<Rightarrow> TaskCreateDTO \<Rightarrow> Task" where
  "new_task now task_list_id task_data =
     \<lparr>t_id = None, t_title = tc_title task_data, t_description = tc_description task_data,
      t_status = PENDING, t_priority = tc_priority task_data, t_task_list_id = task_list_id,
      t_assigned_to = tc_assigned_to task_data, t_created_at = Some now,
      t_updated_at = None, t_due_date = tc_due_date task_data\<rparr>"

definition create_task ::
  "'s TaskService \<Rightarrow> datetime \<Rightarrow> 's \<Rightarrow> int \<Rightarrow> TaskCreateDTO \<Rightarrow> int \<Rightarrow>
     (exn + TaskResponseDTO) \<times> 's" where
  "create_task self now s task_list_id task_data user_id =
     (case task_list_get_by_id (ts_task_list_repository self) s task_list_id of
        None \<Rightarrow> (Inl (TaskListNotFoundError task_list_id), s)
      | Some task_list \<Rightarrow>
          if tl_owner_id task_list \<noteq> user_id
          then (Inl (AuthorizationError ''You don't have access to this task list''), s)
          else
            (case verify_assignee self s (tc_assigned_to task_data) of
               Some e \<Rightarrow> (Inl e, s)
             | None \<Rightarrow>
                 (let task = new_task now task_list_id task_data;
                      (created_task, s') = task_create (ts_task_repository self) s task
                  in case (if truthy_int (t_assigned_to created_task)
                           then send_assignment_notification self s' created_task
                           else Inr ()) of
                       Inl e \<Rightarrow> (Inl e, s')
                     | Inr u \<Rightarrow> (TaskResponseDTO_of now created_task None, s'))))"

text \<open>The block \<^verbatim>\<open># Get assignee info if available\<close> of \<^verbatim>\<open>get_task\<close>.\<close>

definition assignee_info :: "'s TaskService \<Rightarrow> 's \<Rightarrow> Task \<Rightarrow> exn + UserResponseDTO option" where
  "assignee_info self s task =
     (case t_assigned_to task of
        None \<Rightarrow> Inr None
      | Some a \<Rightarrow>
          if a = 0 then Inr None
          else
            (case user_get_by_id (ts_user_repository self) s a of
               None \<Rightarrow> Inr None
             | Some assignee_user \<Rightarrow>
                 (case UserResponseDTO_of assignee_user of
                    Inl e \<Rightarrow> Inl e
                  | Inr r \<Rightarrow> Inr (Some r))))"

definition get_task ::
  "'s TaskService \<Rightarrow> datetime \<Rightarrow> 's \<Rightarrow> int \<Rightarrow> int \<Rightarrow> (exn + TaskResponseDTO) \<times> 's" where
  "get_task self now s task_id user_id =
     (case task_get_by_id (ts_task_repository self) s task_id of
        None \<Rightarrow> (Inl (TaskNotFoundError task_id), s)
      | Some task \<Rightarrow>
          (case task_list_get_by_id (ts_task_list_repository self) s (t_task_list_id task) of
             None \<Rightarrow> (Inl AttributeError, s)
           | Some task_list \<Rightarrow>
               if tl_owner_id task_list \<noteq> user_id \<and> t_assigned_to task \<noteq> Some user_id
               then (Inl (AuthorizationError ''You don't have access to this task''), s)
               else
                 (case assignee_info self s task of
                    Inl e \<Rightarrow> (Inl e, s)
                  | Inr assignee \<Rightarrow> (TaskResponseDTO_of now task assignee, s))))"

text \<open>The block \<^verbatim>\<open># Update fields\<close> of \<^verbatim>\<open>update_task\<close>, with the time stamp that follows
  it: each field is applied when it \<^verbatim>\<open>is not None\<close>.\<close>

definition apply_task_update :: "datetime \<Rightarrow> Task \<Rightarrow> TaskUpdateDTO \<Rightarrow> Task" where
  "apply_task_update now task update_data =
     (let task1 = (case tu_title update_data of
                     None \<Rightarrow> task | Some x \<Rightarrow> task\<lparr>t_title := x\<rparr>);
          task2 = (case tu_description update_data of
                     None \<Rightarrow> task1 | Some x \<Rightarrow> task1\<lparr>t_description := Some x\<rparr>);
          task3 = (case tu_priority update_data of
                     None \<Rightarrow> task2 | Some x \<Rightarrow> task2\<lparr>t_priority := x\<rparr>);
          task4 = (case tu_assigned_to update_data of
                     None \<Rightarrow> task3 | Some x \<Rightarrow> task3\<lparr>t_assigned_to := Some x\<rparr>);
          task5 = (case tu_due_date update_data of
                     None \<Rightarrow> task4 | Some x \<Rightarrow> task4\<lparr>t_due_date := Some x\<rparr>)
      in task5\<lparr>t_updated_at := Some now\<rparr>)"

definition update_task ::
  "'s TaskService \<Rightarrow> datetime \<Rightarrow> 's \<Rightarrow> int \<Rightarrow> TaskUpdateDTO \<Rightarrow> int \<Rightarrow>
     (exn + TaskResponseDTO) \<times> 's" where
  "update_task self now s task_id update_data user_id =
     (case task_get_by_id (ts_task_repository self) s task_id of
        None \<Rightarrow> (Inl (TaskNotFoundError task_id), s)
      | Some task \<Rightarrow>
          (case task_list_get_by_id (ts_task_list_repository self) s (t_task_list_id task) of
             None \<Rightarrow> (Inl AttributeError, s)
           | Some task_list \<Rightarrow>
               if tl_owner_id task_list \<noteq> user_id
               then (Inl (AuthorizationError ''You don't have access to this task''), s)
               else
                 (case verify_assignee self s (tu_assigned_to update_data) of
                    Some e \<Rightarrow> (Inl e, s)
                  | None \<Rightarrow>
                      (let old_assignee = t_assigned_to task;
                           (updated_task, s') =
                              task_update (ts_task_repository self) s
                                (apply_task_update now task update_data)
                       in case (if old_assignee \<noteq> t_assigned_to updated_task
                                   \<and> truthy_int (t_assigned_to updated_task)
                                then send_assignment_notification self s' updated_task
                                else Inr ()) of
                            Inl e \<Rightarrow> (Inl e, s')
                          | Inr u \<Rightarrow> (TaskResponseDTO_of now updated_task None, s')))))"

definition update_task_status ::
  "'s TaskService \<Rightarrow> datetime \<Rightarrow> 's \<Rightarrow> int \<Rightarrow> TaskStatus \<Rightarrow> int \<Rightarrow>
     (exn + TaskResponseDTO) \<times> 's" where
  "update_task_status self now s task_id status user_id =
     (case task_get_by_id (ts_task_repository self) s task_id of
        None \<Rightarrow> (Inl (TaskNotFoundError task_id), s)
      | Some task \<Rightarrow>
          (case task_list_get_by_id (ts_task_list_repository self) s (t_task_list_id task) of
             None \<Rightarrow> (Inl AttributeError, s)
           | Some task_list \<Rightarrow>
               if tl_owner_id task_list \<noteq> user_id \<and> t_assigned_to task \<noteq> Some user_id
               then (Inl (AuthorizationError ''You don't have access to this task''), s)
               else
                 (let (updated_task, s') =
                        task_update_status (ts_task_repository self) s task_id status
                  in (TaskResponseDTO_of now updated_task None, s'))))"

definition delete_task :: "'s TaskService \<Rightarrow> 's \<Rightarrow> int \<Rightarrow> int \<Rightarrow> (exn + bool) \<times> 's" where
  "delete_task self s task_id user_id =
     (case task_get_by_id (ts_task_repository self) s task_id of
        None \<Rightarrow> (Inl (TaskNotFoundError task_id), s)
      | Some task \<Rightarrow>
          (case task_list_get_by_id (ts_task_list_repository self) s (t_task_list_id task) of
             None \<Rightarrow> (Inl AttributeError, s)
           | Some task_list \<Rightarrow>
               if tl_owner_id task_list \<noteq> user_id
               then (Inl (AuthorizationError ''You don't have access to this task''), s)
               else
                 (let (result, s') = task_delete (ts_task_repository self) s task_id
                  in (Inr result, s'))))"

text \<open>The block \<^verbatim>\<open># Apply additional filters\<close> of \<^verbatim>\<open>list_tasks\<close>, over the tasks the
  repository returned.\<close>

definition apply_additional_filters :: "datetime \<Rightarrow> TaskFilterDTO \<Rightarrow> Task list \<Rightarrow> Task list" where
  "apply_additional_filters now filters tasks =
     (let tasks1 = (if f_overdue_only filters then filter (is_overdue now) tasks else tasks);
          tasks2 = (if truthy_int (f_assigned_to filters)
                    then filter (\<lambda>task. t_assigned_to task = f_assigned_to filters) tasks1
                    else tasks1)
      in tasks2)"

definition list_tasks ::
  "'s TaskService \<Rightarrow> datetime \<Rightarrow> 's \<Rightarrow> int \<Rightarrow> TaskFilterDTO \<Rightarrow> PaginationDTO \<Rightarrow> int \<Rightarrow>
     (exn + TaskResponseDTO list) \<times> 's" where
  "list_tasks self now s task_list_id filters pagination user_id =
     (case task_list_get_by_id (ts_task_list_repository self) s task_list_id of
        None \<Rightarrow> (Inl (TaskListNotFoundError task_list_id), s)
      | Some task_list \<Rightarrow>
          if tl_owner_id task_list \<noteq> user_id
          then (Inl (AuthorizationError ''You don't have access to this task list''), s)
          else
            (let tasks = task_get_by_task_list (ts_task_repository self) s task_list_id
                           (skip pagination) (limit pagination)
                           (f_status filters) (f_priority filters)
             in (task_response_list now (apply_additional_filters now filters tasks), s)))"

subsection \<open>What a repository returns\<close>

text \<open>The tables of \<^verbatim>\<open>infrastructure/database.py\<close> declare \<^verbatim>\<open>id\<close> a primary key and
  \<^verbatim>\<open>created_at\<close> \<^verbatim>\<open>nullable=False\<close>: an entity read back from them has both.\<close>

definition persisted_user :: "User \<Rightarrow> bool" where
  "persisted_user user = (u_id user \<noteq> None \<and> u_created_at user \<noteq> None)"

definition persisted_task :: "Task \<Rightarrow> bool" where
  "persisted_task task = (t_id task \<noteq> None \<and> t_created_at task \<noteq> None)"

definition persisted_task_list :: "TaskList \<Rightarrow> bool" where
  "persisted_task_list task_list = (tl_id task_list \<noteq> None \<and> tl_created_at task_list \<noteq> None)"

text \<open>The entity an insert returns is the one it was given, with an id.\<close>

definition task_created_from :: "Task \<Rightarrow> Task \<Rightarrow> bool" where
  "task_created_from task created = (t_id created \<noteq> None \<and> created = task\<lparr>t_id := t_id created\<rparr>)"

subsection \<open>An in-memory persistence layer\<close>

record db =
  db_users :: "User list"
  db_task_lists :: "TaskList list"
  db_tasks :: "Task list"
  db_next_user_id :: int
  db_next_task_list_id :: int
  db_next_task_id :: int

text \<open>\<^verbatim>\<open>src/infrastructure/repositories.py\<close>, the SQLAlchemy implementation of the three
  repository interfaces, is missing from the sources. The three records below implement
  the interfaces over lists of rows. The theorems that hold for every repository do not
  mention them; they carry the concrete runs.\<close>

text \<open>Modelled from the spec: \<^verbatim>\<open>SQLAlchemyUserRepository\<close> is missing from the sources.
  After the docstrings of \<^verbatim>\<open>UserRepository\<close> and the spec (section 3 and 4.3): an insert
  gives the user the next id of the table; the lookups go by id, by e-mail and by
  username.\<close>

definition SQLAlchemyUserRepository :: "db UserRepository" where
  "SQLAlchemyUserRepository =
     \<lparr>user_create = (\<lambda>s user.
        (let created = user\<lparr>u_id := Some (db_next_user_id s)\<rparr>
         in (created, s\<lparr>db_users := db_users s @ [created],
                        db_next_user_id := db_next_user_id s + 1\<rparr>))),
      user_get_by_id = (\<lambda>s user_id. find (\<lambda>u. u_id u = Some user_id) (db_users s)),
      user_get_by_email = (\<lambda>s email. find (\<lambda>u. u_email u = email) (db_users s)),
      user_get_by_username = (\<lambda>s username. find (\<lambda>u. u_username u = username) (db_users s))\<rparr>"

text \<open>Modelled from the spec: \<^verbatim>\<open>SQLAlchemyTaskListRepository\<close> is missing from the
  sources. After the docstrings of \<^verbatim>\<open>TaskListRepository\<close> and the spec (section 3 and
  4.4): an insert gives the list the next id of the table; an update replaces the row of
  the same id and returns the entity it was given; a delete reports whether a row was
  removed and removes the tasks of the list with it; \<^verbatim>\<open>get_by_owner\<close> skips \<open>skip\<close> lists
  of the owner and returns at most \<open>limit\<close>.\<close>

definition SQLAlchemyTaskListRepository :: "db TaskListRepository" where
  "SQLAlchemyTaskListRepository =
     \<lparr>task_list_create = (\<lambda>s task_list.
        (let created = task_list\<lparr>tl_id := Some (db_next_task_list_id s)\<rparr>
         in (created, s\<lparr>db_task_lists := db_task_lists s @ [created],
                        db_next_task_list_id := db_next_task_list_id s + 1\<rparr>))),
      task_list_get_by_id = (\<lambda>s task_list_id.
        find (\<lambda>l. tl_id l = Some task_list_id) (db_task_lists s)),
      task_list_get_by_owner = (\<lambda>s owner_id skip limit.
        take limit (drop skip (filter (\<lambda>l. tl_owner_id l = owner_id) (db_task_lists s)))),
      task_list_update = (\<lambda>s task_list.
        (task_list,
         s\<lparr>db_task_lists :=
              map (\<lambda>l. if tl_id l = tl_id task_list then task_list else l) (db_task_lists s)\<rparr>)),
      task_list_delete = (\<lambda>s task_list_id.
        (find (\<lambda>l. tl_id l = Some task_list_id) (db_task_lists s) \<noteq> None,
         s\<lparr>db_task_lists := filter (\<lambda>l. tl_id l \<noteq> Some task_list_id) (db_task_lists s),
           db_tasks := filter (\<lambda>t. t_task_list_id t \<noteq> task_list_id) (db_tasks s)\<rparr>))\<rparr>"

text \<open>Modelled from the spec: \<^verbatim>\<open>SQLAlchemyTaskRepository\<close> is missing from the sources.
  After the docstrings of \<^verbatim>\<open>TaskRepository\<close> and the spec (section 3 and 4.5): an insert
  gives the task the next id of the table; an update replaces the row of the same id and
  returns the entity it was given; a delete reports whether a row was removed;
  \<^verbatim>\<open>get_by_task_list\<close> filters the tasks of the list by status and priority where given,
  skips \<open>skip\<close> of them and returns at most \<open>limit\<close>; \<^verbatim>\<open>update_status\<close> sets the status
  of the row and returns it. The services call \<^verbatim>\<open>update_status\<close> only for a task they have
  just read; for an id without a row this implementation changes nothing and answers with
  a task without id.\<close>

definition SQLAlchemyTaskRepository :: "db TaskRepository" where
  "SQLAlchemyTaskRepository =
     \<lparr>task_create = (\<lambda>s task.
        (let created = task\<lparr>t_id := Some (db_next_task_id s)\<rparr>
         in (created, s\<lparr>db_tasks := db_tasks s @ [created],
                        db_next_task_id := db_next_task_id s + 1\<rparr>))),
      task_get_by_id = (\<lambda>s task_id. find (\<lambda>t. t_id t = Some task_id) (db_tasks s)),
      task_get_by_task_list = (\<lambda>s task_list_id skip limit status priority.
        take limit (drop skip (filter
          (\<lambda>t. t_task_list_id t = task_list_id
                \<and> (case status of None \<Rightarrow> True | Some x \<Rightarrow> t_status t = x)
                \<and> (case priority of None \<Rightarrow> True | Some x \<Rightarrow> t_priority t = x))
          (db_tasks s)))),
      task_update = (\<lambda>s task.
        (task, s\<lparr>db_tasks := map (\<lambda>t. if t_id t = t_id task then task else t) (db_tasks s)\<rparr>)),
      task_delete = (\<lambda>s task_id.
        (find (\<lambda>t. t_id t = Some task_id) (db_tasks s) \<noteq> None,
         s\<lparr>db_tasks := filter (\<lambda>t. t_id t \<noteq> Some task_id) (db_tasks s)\<rparr>)),
      task_update_status = (\<lambda>s task_id status.
        (case find (\<lambda>t. t_id t = Some task_id) (db_tasks s) of
           None \<Rightarrow>
             (\<lparr>t_id = None, t_title = [], t_description = None, t_status = status,
               t_priority = MEDIUM, t_task_list_id = 0, t_assigned_to = None,
               t_created_at = None, t_updated_at = None, t_due_date = None\<rparr>, s)
         | Some task \<Rightarrow>
             (task\<lparr>t_status := status\<rparr>,
              s\<lparr>db_tasks := map (\<lambda>t. if t_id t = Some task_id then t\<lparr>t_status := status\<rparr> else t)
                               (db_tasks s)\<rparr>)))\<rparr>"

subsection \<open>A concrete installation\<close>

definition alice :: User where
  "alice = \<lparr>u_id = Some 1, u_email = ''alice@example.com'', u_username = ''alice'',
             u_full_name = None, u_hashed_password = ''hash:wonderland'', u_is_active = True,
             u_created_at = Some 1, u_updated_at = None\<rparr>"

definition bob :: User where
  "bob = \<lparr>u_id = Some 2, u_email = ''bob@example.com'', u_username = ''bob'',
           u_full_name = None, u_hashed_password = ''hash:builder'', u_is_active = True,
           u_created_at = Some 1, u_updated_at = None\<rparr>"

definition carol :: User where
  "carol = \<lparr>u_id = Some 3, u_email = ''carol@example.com'', u_username = ''carol'',
             u_full_name = None, u_hashed_password = ''hash:singer'', u_is_active = False,
             u_created_at = Some 1, u_updated_at = None\<rparr>"

text \<open>A user whose username is another user's e-mail address.\<close>

definition dave :: User where
  "dave = \<lparr>u_id = Some 4, u_email = ''dave@example.com'', u_username = ''alice@example.com'',
            u_full_name = None, u_hashed_password = ''hash:other'', u_is_active = True,
            u_created_at = Some 1, u_updated_at = None\<rparr>"

definition groceries :: TaskList where
  "groceries = \<lparr>tl_id = Some 1, tl_name = ''Groceries'', tl_description = None,
                 tl_owner_id = 1, tl_created_at = Some 2, tl_updated_at = None,
                 tl_tasks = []\<rparr>"

definition milk :: Task where
  "milk = \<lparr>t_id = Some 1, t_title = ''Milk'', t_description = None, t_status = PENDING,
            t_priority = MEDIUM, t_task_list_id = 1, t_assigned_to = Some 2,
            t_created_at = Some 3, t_updated_at = None, t_due_date = Some 10\<rparr>"

definition eggs :: Task where
  "eggs = \<lparr>t_id = Some 2, t_title = ''Eggs'', t_description = None, t_status = COMPLETED,
            t_priority = MEDIUM, t_task_list_id = 1, t_assigned_to = None,
            t_created_at = Some 3, t_updated_at = None, t_due_date = None\<rparr>"

definition bread :: Task where
  "bread = \<lparr>t_id = Some 3, t_title = ''Bread'', t_description = None, t_status = PENDING,
             t_priority = MEDIUM, t_task_list_id = 1, t_assigned_to = Some 2,
             t_created_at = Some 3, t_updated_at = None, t_due_date = Some 10\<rparr>"

definition db0 :: db where
  "db0 = \<lparr>db_users = [alice, bob, carol, dave], db_task_lists = [groceries],
           db_tasks = [milk, eggs, bread],
           db_next_user_id = 5, db_next_task_list_id = 2, db_next_task_id = 4\<rparr>"

text \<open>The same installation with 101 tasks in the list: a hundred pending ones, with the
  ids 1 to 100, and then a completed one.\<close>

definition db_many :: db where
  "db_many = db0\<lparr>db_tasks := map (\<lambda>i. milk\<lparr>t_id := Some (int i)\<rparr>) [1..<101]
                              @ [eggs\<lparr>t_id := Some 101\<rparr>],
                  db_next_task_id := 102\<rparr>"

definition auth0 :: "db AuthService" where
  "auth0 = \<lparr>auth_user_repository = SQLAlchemyUserRepository,
             access_token_expire_minutes = 30,
             pwd_hash = (\<lambda>password. ''hash:'' @ password),
             pwd_verify = (\<lambda>password hashed. hashed = ''hash:'' @ password),
             jwt_encode = (\<lambda>sub exp. ''jwt'')\<rparr>"

definition task_list_service0 :: "db TaskListService" where
  "task_list_service0 =
     \<lparr>tls_task_list_repository = SQLAlchemyTaskListRepository,
      tls_task_repository = SQLAlchemyTaskRepository,
      tls_notification_service = send_email_notification True\<rparr>"

definition task_service0 :: "notification_service \<Rightarrow> db TaskService" where
  "task_service0 notifier =
     \<lparr>ts_task_repository = SQLAlchemyTaskRepository,
      ts_task_list_repository = SQLAlchemyTaskListRepository,
      ts_user_repository = SQLAlchemyUserRepository,
      ts_notification_service = notifier\<rparr>"

text \<open>A notification service whose call raises, as the mock of
  \<^verbatim>\<open>test_notification_error_handling\<close> does.\<close>

definition unavailable :: notification_service where
  "unavailable notification = Inl (ForeignException ''Email service unavailable'')"

text \<open>Requests used in the concrete runs.\<close>

definition tea :: "int option \<Rightarrow> TaskCreateDTO" where
  "tea assigned_to = \<lparr>tc_title = ''Tea'', tc_description = None, tc_task_list_id = 1,
                       tc_priority = MEDIUM, tc_assigned_to = assigned_to, tc_due_date = None\<rparr>"

definition reassign :: "int option \<Rightarrow> TaskUpdateDTO" where
  "reassign assigned_to = \<lparr>tu_title = None, tu_description = None, tu_priority = None,
                            tu_assigned_to = assigned_to, tu_due_date = None\<rparr>"

definition retitle :: TaskUpdateDTO where
  "retitle = \<lparr>tu_title = Some ''Oat milk'', tu_description = None, tu_priority = None,
               tu_assigned_to = None, tu_due_date = None\<rparr>"

definition rename :: TaskListUpdateDTO where
  "rename = \<lparr>tlu_name = Some ''Food'', tlu_description = None\<rparr>"

definition assigned_to_bob :: TaskFilterDTO where
  "assigned_to_bob = \<lparr>f_status = None, f_priority = None, f_assigned_to = Some 2,
                       f_overdue_only = False\<rparr>"

definition first_two :: PaginationDTO where
  "first_two = \<lparr>skip = 0, limit = 2\<rparr>"

section \<open>Properties\<close>

lemmas fixtures = alice_def bob_def carol_def dave_def groceries_def milk_def eggs_def bread_def
  db0_def auth0_def task_list_service0_def task_service0_def unavailable_def
  SQLAlchemyUserRepository_def SQLAlchemyTaskListRepository_def SQLAlchemyTaskRepository_def

subsection \<open>Response DTOs of persisted entities\<close>

lemma TaskResponseDTO_of_persisted:
  "persisted_task task \<Longrightarrow>
     \<exists>dto. TaskResponseDTO_of now task assignee = Inr dto
         \<and> tr_assigned_to dto = t_assigned_to task"
  by (auto simp: persisted_task_def TaskResponseDTO_of_def)

lemma task_response_list_persisted:
  "list_all persisted_task tasks \<Longrightarrow>
     \<exists>rs. task_response_list now tasks = Inr rs \<and> map (\<lambda>r. Some (tr_id r)) rs = map t_id tasks"
proof (induction tasks)
  case Nil
  then show ?case by simp
next
  case (Cons task tasks)
  then obtain rs where rs: "task_response_list now tasks = Inr rs"
    "map (\<lambda>r. Some (tr_id r)) rs = map t_id tasks" by auto
  from Cons.prems obtain i c where "t_id task = Some i" "t_created_at task = Some c"
    by (auto simp: persisted_task_def)
  with rs show ?case by (simp add: TaskResponseDTO_of_def)
qed

lemma assignee_info_persisted:
  assumes "\<forall>a u. t_assigned_to task = Some a
             \<and> user_get_by_id (ts_user_repository self) s a = Some u \<longrightarrow> persisted_user u"
  shows "\<exists>assignee. assignee_info self s task = Inr assignee"
proof (cases "t_assigned_to task")
  case None
  then show ?thesis by (simp add: assignee_info_def)
next
  case (Some a)
  show ?thesis
  proof (cases "user_get_by_id (ts_user_repository self) s a")
    case None
    with Some show ?thesis by (simp add: assignee_info_def)
  next
    case (Some u)
    with assms \<open>t_assigned_to task = Some a\<close> have "persisted_user u" by blast
    then obtain i c where "u_id u = Some i" "u_created_at u = Some c"
      by (auto simp: persisted_user_def)
    with Some \<open>t_assigned_to task = Some a\<close> show ?thesis
      by (simp add: assignee_info_def UserResponseDTO_of_def)
  qed
qed

subsection \<open>Task lists: the ownership gate\<close>

text \<open>Claim C1. For a task list owned by one user, \<^verbatim>\<open>get_task_list\<close>, \<^verbatim>\<open>update_task_list\<close>
  and \<^verbatim>\<open>delete_task_list\<close> called by any other user fail with \<^verbatim>\<open>AuthorizationError\<close> and
  leave the state as it was, and the same calls by the owner succeed; when the repository
  holds no list of that id, each of them fails with \<^verbatim>\<open>TaskListNotFoundError\<close> whoever calls,
  the lookup coming before the comparison of the owner. The owner's \<^verbatim>\<open>get\<close> and
  \<^verbatim>\<open>update\<close> build response DTOs, which ask for the \<^verbatim>\<open>id\<close> and \<^verbatim>\<open>created_at\<close> every
  stored row has: the list and the tasks read are persisted, and the repository's update
  returns a persisted list when it is given one.\<close>

theorem task_list_ownership_gate:
  "(task_list_get_by_id (tls_task_list_repository self) s task_list_id = None \<longrightarrow>
      get_task_list self now s task_list_id user_id
        = (Inl (TaskListNotFoundError task_list_id), s)
    \<and> update_task_list self now s task_list_id update_data user_id
        = (Inl (TaskListNotFoundError task_list_id), s)
    \<and> delete_task_list self s task_list_id user_id
        = (Inl (TaskListNotFoundError task_list_id), s))
   \<and> (\<forall>task_list.
        task_list_get_by_id (tls_task_list_repository self) s task_list_id = Some task_list
        \<and> tl_owner_id task_list \<noteq> user_id \<longrightarrow>
          get_task_list self now s task_list_id user_id
            = (Inl (AuthorizationError ''You don't have access to this task list''), s)
        \<and> update_task_list self now s task_list_id update_data user_id
            = (Inl (AuthorizationError ''You don't have access to this task list''), s)
        \<and> delete_task_list self s task_list_id user_id
            = (Inl (AuthorizationError ''You don't have access to this task list''), s))
   \<and> (\<forall>task_list.
        task_list_get_by_id (tls_task_list_repository self) s task_list_id = Some task_list
        \<and> tl_owner_id task_list = user_id \<longrightarrow>
          (persisted_task_list task_list
           \<and> list_all persisted_task
                (task_get_by_task_list (tls_task_repository self) s task_list_id
                   default_skip default_limit None None) \<longrightarrow>
             (\<exists>dto. get_task_list self now s task_list_id user_id = (Inr dto, s)))
        \<and> (persisted_task_list task_list
           \<and> (\<forall>x. persisted_task_list x \<longrightarrow>
                  persisted_task_list (fst (task_list_update (tls_task_list_repository self) s x)))
             \<longrightarrow> (\<exists>dto s'. update_task_list self now s task_list_id update_data user_id
                            = (Inr dto, s')))
        \<and> (\<exists>result s'. delete_task_list self s task_list_id user_id = (Inr result, s')))"
proof (intro conjI allI impI; (elim conjE)?)
  assume "task_list_get_by_id (tls_task_list_repository self) s task_list_id = None"
  then show "get_task_list self now s task_list_id user_id
        = (Inl (TaskListNotFoundError task_list_id), s)"
    "update_task_list self now s task_list_id update_data user_id
        = (Inl (TaskListNotFoundError task_list_id), s)"
    "delete_task_list self s task_list_id user_id
        = (Inl (TaskListNotFoundError task_list_id), s)"
    by (simp_all add: get_task_list_def update_task_list_def delete_task_list_def)
next
  fix task_list
  assume "task_list_get_by_id (tls_task_list_repository self) s task_list_id = Some task_list"
    "tl_owner_id task_list \<noteq> user_id"
  then show "get_task_list self now s task_list_id user_id
            = (Inl (AuthorizationError ''You don't have access to this task list''), s)"
    "update_task_list self now s task_list_id update_data user_id
            = (Inl (AuthorizationError ''You don't have access to this task list''), s)"
    "delete_task_list self s task_list_id user_id
            = (Inl (AuthorizationError ''You don't have access to this task list''), s)"
    by (simp_all add: get_task_list_def update_task_list_def delete_task_list_def)
next
  fix task_list
  assume found: "task_list_get_by_id (tls_task_list_repository self) s task_list_id = Some task_list"
    and owner: "tl_owner_id task_list = user_id"
  show "\<exists>result s'. delete_task_list self s task_list_id user_id = (Inr result, s')"
    using found owner by (simp add: delete_task_list_def split: prod.splits)
  {
    assume p: "persisted_task_list task_list"
      and ts: "list_all persisted_task
                (task_get_by_task_list (tls_task_repository self) s task_list_id
                   default_skip default_limit None None)"
    from task_response_list_persisted [OF ts, of now] obtain rs where
      "task_response_list now (task_get_by_task_list (tls_task_repository self) s task_list_id
                   default_skip default_limit None None) = Inr rs" by blast
    moreover from p obtain i c where "tl_id task_list = Some i" "tl_created_at task_list = Some c"
      by (auto simp: persisted_task_list_def)
    ultimately show "\<exists>dto. get_task_list self now s task_list_id user_id = (Inr dto, s)"
      using found owner by (simp add: get_task_list_def TaskListWithTasksDTO_of_def)
  }
  {
    assume p: "persisted_task_list task_list"
      and u: "\<forall>x. persisted_task_list x \<longrightarrow>
                  persisted_task_list (fst (task_list_update (tls_task_list_repository self) s x))"
    have "persisted_task_list (apply_task_list_update now task_list update_data)"
      using p by (simp add: persisted_task_list_def apply_task_list_update_def Let_def
          split: option.splits)
    with u have "persisted_task_list (fst (task_list_update (tls_task_list_repository self) s
                   (apply_task_list_update now task_list update_data)))" by blast
    then show "\<exists>dto s'. update_task_list self now s task_list_id update_data user_id = (Inr dto, s')"
      using found owner
      by (auto simp: update_task_list_def TaskListResponseDTO_of_def persisted_task_list_def
          split: prod.splits option.splits)
  }
qed

text \<open>In the concrete installation the list 1 belongs to user 1: user 2 is refused three
  times, user 1 is served three times, and nobody finds a list 7.\<close>

theorem task_list_ownership_gate_witness:
  "task_list_get_by_id SQLAlchemyTaskListRepository db0 1 = Some groceries
   \<and> tl_owner_id groceries = 1
   \<and> persisted_task_list groceries
   \<and> list_all persisted_task
        (task_get_by_task_list SQLAlchemyTaskRepository db0 1 default_skip default_limit None None)
   \<and> get_task_list task_list_service0 11 db0 1 2
        = (Inl (AuthorizationError ''You don't have access to this task list''), db0)
   \<and> update_task_list task_list_service0 11 db0 1 rename 2
        = (Inl (AuthorizationError ''You don't have access to this task list''), db0)
   \<and> delete_task_list task_list_service0 db0 1 2
        = (Inl (AuthorizationError ''You don't have access to this task list''), db0)
   \<and> (\<exists>dto. get_task_list task_list_service0 11 db0 1 1 = (Inr dto, db0))
   \<and> (\<exists>dto s'. update_task_list task_list_service0 11 db0 1 rename 1 = (Inr dto, s'))
   \<and> (\<exists>result s'. delete_task_list task_list_service0 db0 1 1 = (Inr result, s'))
   \<and> task_list_get_by_id SQLAlchemyTaskListRepository db0 7 = None
   \<and> get_task_list task_list_service0 11 db0 7 1 = (Inl (TaskListNotFoundError 7), db0)
   \<and> update_task_list task_list_service0 11 db0 7 rename 1 = (Inl (TaskListNotFoundError 7), db0)
   \<and> delete_task_list task_list_service0 db0 7 1 = (Inl (TaskListNotFoundError 7), db0)"
  using task_list_ownership_gate [of task_list_service0 db0 1 11 2 rename]
    task_list_ownership_gate [of task_list_service0 db0 1 11 1 rename]
    task_list_ownership_gate [of task_list_service0 db0 7 11 1 rename]
  by (simp add: fixtures rename_def persisted_task_list_def persisted_task_def
      default_skip_def default_limit_def)

subsection \<open>Tasks: who may read, change and delete\<close>

text \<open>Claim C2. For an existing task whose list exists, \<^verbatim>\<open>get_task\<close> and
  \<^verbatim>\<open>update_task_status\<close> succeed for the owner of the list and for the assignee of the task
  and fail with \<^verbatim>\<open>AuthorizationError\<close> for everybody else; \<^verbatim>\<open>update_task\<close> and
  \<^verbatim>\<open>delete_task\<close> fail with \<^verbatim>\<open>AuthorizationError\<close> for everybody but the owner of the list,
  the assignee included, so that an update that succeeds was asked for by the owner, and the
  owner's delete succeeds. Success again is that of a response DTO: the task read, the
  assignee read for it and the task the status update returns are persisted.\<close>

theorem task_access_gate:
  assumes task: "task_get_by_id (ts_task_repository self) s task_id = Some task"
    and task_list: "task_list_get_by_id (ts_task_list_repository self) s (t_task_list_id task)
                      = Some task_list"
  shows "(tl_owner_id task_list \<noteq> user_id \<and> t_assigned_to task \<noteq> Some user_id \<longrightarrow>
            get_task self now s task_id user_id
              = (Inl (AuthorizationError ''You don't have access to this task''), s)
          \<and> update_task_status self now s task_id status user_id
              = (Inl (AuthorizationError ''You don't have access to this task''), s))
       \<and> (tl_owner_id task_list \<noteq> user_id \<longrightarrow>
            update_task self now s task_id update_data user_id
              = (Inl (AuthorizationError ''You don't have access to this task''), s)
          \<and> delete_task self s task_id user_id
              = (Inl (AuthorizationError ''You don't have access to this task''), s))
       \<and> ((tl_owner_id task_list = user_id \<or> t_assigned_to task = Some user_id)
          \<and> persisted_task task
          \<and> (\<forall>a u. t_assigned_to task = Some a
                 \<and> user_get_by_id (ts_user_repository self) s a = Some u \<longrightarrow> persisted_user u)
          \<longrightarrow> (\<exists>dto. get_task self now s task_id user_id = (Inr dto, s)))
       \<and> ((tl_owner_id task_list = user_id \<or> t_assigned_to task = Some user_id)
          \<and> persisted_task (fst (task_update_status (ts_task_repository self) s task_id status))
          \<longrightarrow> (\<exists>dto s'. update_task_status self now s task_id status user_id = (Inr dto, s')))
       \<and> (tl_owner_id task_list = user_id \<longrightarrow>
            (\<exists>result s'. delete_task self s task_id user_id = (Inr result, s')))
       \<and> (\<forall>dto s'. update_task self now s task_id update_data user_id = (Inr dto, s')
            \<longrightarrow> tl_owner_id task_list = user_id)"
proof (intro conjI allI impI; (elim conjE)?)
  assume "tl_owner_id task_list \<noteq> user_id" "t_assigned_to task \<noteq> Some user_id"
  then show "get_task self now s task_id user_id
              = (Inl (AuthorizationError ''You don't have access to this task''), s)"
    "update_task_status self now s task_id status user_id
              = (Inl (AuthorizationError ''You don't have access to this task''), s)"
    using task task_list by (simp_all add: get_task_def update_task_status_def)
next
  assume "tl_owner_id task_list \<noteq> user_id"
  then show "update_task self now s task_id update_data user_id
              = (Inl (AuthorizationError ''You don't have access to this task''), s)"
    "delete_task self s task_id user_id
              = (Inl (AuthorizationError ''You don't have access to this task''), s)"
    using task task_list by (simp_all add: update_task_def delete_task_def)
next
  assume gate: "tl_owner_id task_list = user_id \<or> t_assigned_to task = Some user_id"
    and p: "persisted_task task"
    and a: "\<forall>a u. t_assigned_to task = Some a
                 \<and> user_get_by_id (ts_user_repository self) s a = Some u \<longrightarrow> persisted_user u"
  from assignee_info_persisted [OF a] obtain assignee where
    "assignee_info self s task = Inr assignee" by blast
  moreover from TaskResponseDTO_of_persisted [OF p] obtain dto where
    "TaskResponseDTO_of now task assignee = Inr dto" by blast
  ultimately show "\<exists>dto. get_task self now s task_id user_id = (Inr dto, s)"
    using task task_list gate by (auto simp: get_task_def)
next
  assume gate: "tl_owner_id task_list = user_id \<or> t_assigned_to task = Some user_id"
    and p: "persisted_task (fst (task_update_status (ts_task_repository self) s task_id status))"
  from TaskResponseDTO_of_persisted [OF p] obtain dto where
    "TaskResponseDTO_of now (fst (task_update_status (ts_task_repository self) s task_id status))
       None = Inr dto" by blast
  then show "\<exists>dto s'. update_task_status self now s task_id status user_id = (Inr dto, s')"
    using task task_list gate by (auto simp: update_task_status_def split: prod.splits)
next
  assume "tl_owner_id task_list = user_id"
  then show "\<exists>result s'. delete_task self s task_id user_id = (Inr result, s')"
    using task task_list by (simp add: delete_task_def split: prod.splits)
next
  fix dto s'
  assume "update_task self now s task_id update_data user_id = (Inr dto, s')"
  then show "tl_owner_id task_list = user_id"
    using task task_list by (auto simp: update_task_def split: if_splits)
qed

text \<open>Task 1 of the concrete installation is in the list of user 1 and assigned to user 2:
  user 1 does everything, user 2 reads and sets the status but neither updates nor deletes,
  user 3 does nothing.\<close>

theorem task_access_gate_witness:
  "task_get_by_id SQLAlchemyTaskRepository db0 1 = Some milk
   \<and> task_list_get_by_id SQLAlchemyTaskListRepository db0 (t_task_list_id milk) = Some groceries
   \<and> tl_owner_id groceries = 1 \<and> t_assigned_to milk = Some 2
   \<and> (\<exists>dto. get_task (task_service0 unavailable) 11 db0 1 1 = (Inr dto, db0))
   \<and> (\<exists>dto. get_task (task_service0 unavailable) 11 db0 1 2 = (Inr dto, db0))
   \<and> get_task (task_service0 unavailable) 11 db0 1 3
        = (Inl (AuthorizationError ''You don't have access to this task''), db0)
   \<and> (\<exists>dto s'. update_task_status (task_service0 unavailable) 11 db0 1 COMPLETED 1 = (Inr dto, s'))
   \<and> (\<exists>dto s'. update_task_status (task_service0 unavailable) 11 db0 1 COMPLETED 2 = (Inr dto, s'))
   \<and> update_task_status (task_service0 unavailable) 11 db0 1 COMPLETED 3
        = (Inl (AuthorizationError ''You don't have access to this task''), db0)
   \<and> (\<exists>dto s'. update_task (task_service0 unavailable) 11 db0 1 retitle 1 = (Inr dto, s'))
   \<and> update_task (task_service0 unavailable) 11 db0 1 retitle 2
        = (Inl (AuthorizationError ''You don't have access to this task''), db0)
   \<and> (\<exists>result s'. delete_task (task_service0 unavailable) db0 1 1 = (Inr result, s'))
   \<and> delete_task (task_service0 unavailable) db0 1 2
        = (Inl (AuthorizationError ''You don't have access to this task''), db0)"
  using task_access_gate [of "task_service0 unavailable" db0 1 milk groceries 1 11 COMPLETED retitle]
    task_access_gate [of "task_service0 unavailable" db0 1 milk groceries 2 11 COMPLETED retitle]
    task_access_gate [of "task_service0 unavailable" db0 1 milk groceries 3 11 COMPLETED retitle]
  by (simp add: fixtures retitle_def persisted_task_def persisted_user_def update_task_def
      verify_assignee_def apply_task_update_def truthy_int_def TaskResponseDTO_of_def)

subsection \<open>Login and registration\<close>

text \<open>Claim C3. \<^verbatim>\<open>authenticate_user\<close> takes the user found by e-mail and, only when there
  is none, the user found by username. It fails with
  \<^verbatim>\<open>AuthenticationError("Invalid credentials")\<close>, one and the same value, exactly when
  nobody is found or the password does not verify, and with the different
  \<^verbatim>\<open>AuthenticationError("User account is inactive")\<close> exactly when a user is found, the
  password verifies and the user is not active. It raises nothing else and changes
  nothing.\<close>

theorem authenticate_user_errors:
  assumes "user = (case user_get_by_email (auth_user_repository self) s (l_email login_data) of
                     Some u \<Rightarrow> Some u
                   | None \<Rightarrow>
                       user_get_by_username (auth_user_repository self) s (l_email login_data))"
  shows "(fst (authenticate_user self now s login_data)
            = Inl (AuthenticationError ''Invalid credentials'')
          \<longleftrightarrow> user = None
              \<or> (\<exists>u. user = Some u
                    \<and> \<not> pwd_verify self (l_password login_data) (u_hashed_password u)))
       \<and> (fst (authenticate_user self now s login_data)
            = Inl (AuthenticationError ''User account is inactive'')
          \<longleftrightarrow> (\<exists>u. user = Some u
                    \<and> pwd_verify self (l_password login_data) (u_hashed_password u)
                    \<and> \<not> u_is_active u))
       \<and> (\<forall>e. fst (authenticate_user self now s login_data) = Inl e
              \<longrightarrow> e = AuthenticationError ''Invalid credentials''
                  \<or> e = AuthenticationError ''User account is inactive'')
       \<and> AuthenticationError ''Invalid credentials''
            \<noteq> AuthenticationError ''User account is inactive''
       \<and> snd (authenticate_user self now s login_data) = s"
  using assms
  by (cases user) (auto simp: authenticate_user_def Let_def split: option.splits)

text \<open>In the concrete installation \<^verbatim>\<open>alice@example.com\<close> is the e-mail of one user and the
  username of another: the login under that name is judged against the first one's
  password. An unknown name and a wrong password give the same error, the inactive user
  with the right password gives the other one.\<close>

theorem authenticate_user_errors_witness:
  "user_get_by_email SQLAlchemyUserRepository db0 ''alice@example.com'' = Some alice
   \<and> user_get_by_username SQLAlchemyUserRepository db0 ''alice@example.com'' = Some dave
   \<and> pwd_verify auth0 ''other'' (u_hashed_password dave)
   \<and> authenticate_user auth0 0 db0 \<lparr>l_email = ''alice@example.com'', l_password = ''other''\<rparr>
        = (Inl (AuthenticationError ''Invalid credentials''), db0)
   \<and> (\<exists>token. authenticate_user auth0 0 db0
                  \<lparr>l_email = ''alice@example.com'', l_password = ''wonderland''\<rparr>
                = (Inr token, db0) \<and> expires_in token = 1800)
   \<and> authenticate_user auth0 0 db0 \<lparr>l_email = ''nobody'', l_password = ''wonderland''\<rparr>
        = (Inl (AuthenticationError ''Invalid credentials''), db0)
   \<and> user_get_by_email SQLAlchemyUserRepository db0 ''carol'' = None
   \<and> user_get_by_username SQLAlchemyUserRepository db0 ''carol'' = Some carol
   \<and> authenticate_user auth0 0 db0 \<lparr>l_email = ''carol'', l_password = ''singer''\<rparr>
        = (Inl (AuthenticationError ''User account is inactive''), db0)
   \<and> authenticate_user auth0 0 db0 \<lparr>l_email = ''carol'', l_password = ''wrong''\<rparr>
        = (Inl (AuthenticationError ''Invalid credentials''), db0)"
  using authenticate_user_errors [of "Some alice" auth0 db0
      "\<lparr>l_email = ''alice@example.com'', l_password = ''other''\<rparr>" 0]
    authenticate_user_errors [of None auth0 db0
      "\<lparr>l_email = ''nobody'', l_password = ''wonderland''\<rparr>" 0]
    authenticate_user_errors [of "Some carol" auth0 db0
      "\<lparr>l_email = ''carol'', l_password = ''singer''\<rparr>" 0]
  by (simp add: fixtures authenticate_user_def create_access_token_def)

text \<open>Claim C4. \<^verbatim>\<open>register_user\<close> fails with \<^verbatim>\<open>EmailAlreadyExistsError\<close> exactly when the
  e-mail is taken, whatever the username, and with \<^verbatim>\<open>UsernameAlreadyExistsError\<close> exactly
  when the e-mail is free and the username is taken: a request with both taken reports the
  e-mail. Either failure leaves the state as it was.\<close>

theorem register_user_duplicates:
  "(fst (register_user self now s user_data) = Inl (EmailAlreadyExistsError (uc_email user_data))
      \<longleftrightarrow> user_get_by_email (auth_user_repository self) s (uc_email user_data) \<noteq> None)
   \<and> (fst (register_user self now s user_data)
         = Inl (UsernameAlreadyExistsError (uc_username user_data))
      \<longleftrightarrow> user_get_by_email (auth_user_repository self) s (uc_email user_data) = None
          \<and> user_get_by_username (auth_user_repository self) s (uc_username user_data) \<noteq> None)
   \<and> (user_get_by_email (auth_user_repository self) s (uc_email user_data) \<noteq> None
        \<or> user_get_by_username (auth_user_repository self) s (uc_username user_data) \<noteq> None
      \<longrightarrow> snd (register_user self now s user_data) = s)"
  by (auto simp: register_user_def UserResponseDTO_of_def Let_def split: option.splits prod.splits)

theorem register_user_duplicates_witness:
  "user_get_by_email SQLAlchemyUserRepository db0 ''alice@example.com'' = Some alice
   \<and> user_get_by_username SQLAlchemyUserRepository db0 ''bob'' = Some bob
   \<and> register_user auth0 0 db0
        \<lparr>uc_email = ''alice@example.com'', uc_username = ''bob'', uc_full_name = None,
         uc_password = ''12345678''\<rparr>
       = (Inl (EmailAlreadyExistsError ''alice@example.com''), db0)
   \<and> user_get_by_email SQLAlchemyUserRepository db0 ''erin@example.com'' = None
   \<and> register_user auth0 0 db0
        \<lparr>uc_email = ''erin@example.com'', uc_username = ''bob'', uc_full_name = None,
         uc_password = ''12345678''\<rparr>
       = (Inl (UsernameAlreadyExistsError ''bob''), db0)
   \<and> (\<exists>dto s'. register_user auth0 0 db0
                   \<lparr>uc_email = ''erin@example.com'', uc_username = ''erin'',
                    uc_full_name = None, uc_password = ''12345678''\<rparr>
                 = (Inr dto, s') \<and> ur_id dto = 5)"
  using register_user_duplicates [of auth0 0 db0
      "\<lparr>uc_email = ''alice@example.com'', uc_username = ''bob'', uc_full_name = None,
        uc_password = ''12345678''\<rparr>"]
    register_user_duplicates [of auth0 0 db0
      "\<lparr>uc_email = ''erin@example.com'', uc_username = ''bob'', uc_full_name = None,
        uc_password = ''12345678''\<rparr>"]
  by (simp add: fixtures register_user_def UserResponseDTO_of_def Let_def)

subsection \<open>Overdue tasks\<close>

text \<open>Claim C8. \<^verbatim>\<open>is_overdue\<close> holds exactly when the task has a due date, the current
  time is strictly after it and the status is not \<^verbatim>\<open>COMPLETED\<close>: a cancelled task is overdue
  as soon as its due date has passed, and a task without due date never is.\<close>

theorem is_overdue_rule:
  "(is_overdue now task \<longleftrightarrow>
      (\<exists>due_date. t_due_date task = Some due_date \<and> due_date < now
                 \<and> t_status task \<noteq> COMPLETED))
   \<and> (is_overdue now (task\<lparr>t_status := CANCELLED, t_due_date := Some d\<rparr>) \<longleftrightarrow> d < now)
   \<and> \<not> is_overdue now (task\<lparr>t_due_date := None\<rparr>)"
  by (auto simp: is_overdue_def split: option.splits)

theorem is_overdue_rule_witness:
  "t_due_date milk = Some 10 \<and> t_status milk = PENDING
   \<and> is_overdue 11 milk \<and> \<not> is_overdue 10 milk
   \<and> \<not> is_overdue 11 (milk\<lparr>t_status := COMPLETED\<rparr>)
   \<and> is_overdue 11 (milk\<lparr>t_status := CANCELLED, t_due_date := Some 10\<rparr>)
   \<and> \<not> is_overdue 11 (milk\<lparr>t_due_date := None\<rparr>)"
  using is_overdue_rule [of 11 milk 10] is_overdue_rule [of 10 milk 10]
    is_overdue_rule [of 11 "milk\<lparr>t_status := COMPLETED\<rparr>" 10]
  by (simp add: milk_def)

subsection \<open>Listing tasks: the page first, the other filters after\<close>

lemma apply_additional_filters_filter:
  "apply_additional_filters now filters tasks =
     filter (\<lambda>task. (if f_overdue_only filters then is_overdue now task else True)
                   \<and> (if truthy_int (f_assigned_to filters)
                       then t_assigned_to task = f_assigned_to filters else True)) tasks"
  by (simp add: apply_additional_filters_def Let_def)

text \<open>Claim C9. \<^verbatim>\<open>list_tasks\<close>, called by the owner of the list, asks the repository for
  one page: the task list id, \<^verbatim>\<open>skip\<close>, \<^verbatim>\<open>limit\<close>, the status and the priority are all
  the repository is told. The tasks of the answer are then those of that page, in its
  order, that pass \<^verbatim>\<open>overdue_only\<close> and \<^verbatim>\<open>assigned_to\<close> (an \<^verbatim>\<open>assigned_to\<close> filter counts
  when it is truthy), so they are no more than the page holds. With the in-memory
  repository, a page of two and the filter on the assignee 2 the answer has one task,
  fewer than the limit, although two tasks of the list are assigned to user 2: the second
  lies beyond the page.\<close>

theorem list_tasks_page_then_filter:
  "(\<forall>task_list page.
      task_list_get_by_id (ts_task_list_repository self) s task_list_id = Some task_list
      \<and> tl_owner_id task_list = user_id
      \<and> page = task_get_by_task_list (ts_task_repository self) s task_list_id
                 (skip pagination) (limit pagination) (f_status filters) (f_priority filters)
      \<and> list_all persisted_task page
      \<longrightarrow> (\<exists>results.
             list_tasks self now s task_list_id filters pagination user_id = (Inr results, s)
           \<and> map (\<lambda>r. Some (tr_id r)) results
               = map t_id
                   (filter (\<lambda>task. (if f_overdue_only filters then is_overdue now task else True)
                                  \<and> (if truthy_int (f_assigned_to filters)
                                      then t_assigned_to task = f_assigned_to filters
                                      else True))
                      page)
           \<and> length results \<le> length page))
   \<and> (\<exists>results.
         list_tasks (task_service0 (send_email_notification True)) 11 db0 1 assigned_to_bob
           first_two 1 = (Inr results, db0)
       \<and> map tr_id results = [1]
       \<and> length results < limit first_two
       \<and> map t_id (filter (\<lambda>task. t_task_list_id task = 1 \<and> t_assigned_to task = Some 2)
                      (db_tasks db0)) = [Some 1, Some 3])"
proof (intro conjI allI impI; (elim conjE)?)
  fix task_list page
  assume found: "task_list_get_by_id (ts_task_list_repository self) s task_list_id = Some task_list"
    and owner: "tl_owner_id task_list = user_id"
    and page: "page = task_get_by_task_list (ts_task_repository self) s task_list_id
                 (skip pagination) (limit pagination) (f_status filters) (f_priority filters)"
    and p: "list_all persisted_task page"
  let ?kept = "apply_additional_filters now filters page"
  have "list_all persisted_task ?kept"
    using p by (simp add: apply_additional_filters_filter list_all_iff)
  from task_response_list_persisted [OF this, of now] obtain rs where
    rs: "task_response_list now ?kept = Inr rs" "map (\<lambda>r. Some (tr_id r)) rs = map t_id ?kept"
    by blast
  from rs(2) have "length rs = length ?kept" by (metis length_map)
  then have "length rs \<le> length page" by (simp add: apply_additional_filters_filter)
  with rs found owner page
  show "\<exists>results.
             list_tasks self now s task_list_id filters pagination user_id = (Inr results, s)
           \<and> map (\<lambda>r. Some (tr_id r)) results
               = map t_id
                   (filter (\<lambda>task. (if f_overdue_only filters then is_overdue now task else True)
                                  \<and> (if truthy_int (f_assigned_to filters)
                                      then t_assigned_to task = f_assigned_to filters
                                      else True))
                      page)
           \<and> length results \<le> length page"
    by (simp add: list_tasks_def apply_additional_filters_filter)
next
  show "\<exists>results.
         list_tasks (task_service0 (send_email_notification True)) 11 db0 1 assigned_to_bob
           first_two 1 = (Inr results, db0)
       \<and> map tr_id results = [1]
       \<and> length results < limit first_two
       \<and> map t_id (filter (\<lambda>task. t_task_list_id task = 1 \<and> t_assigned_to task = Some 2)
                      (db_tasks db0)) = [Some 1, Some 3]"
    by (simp add: fixtures assigned_to_bob_def first_two_def truthy_int_def
        list_tasks_def apply_additional_filters_def TaskResponseDTO_of_def)
qed

theorem list_tasks_page_then_filter_witness:
  "task_list_get_by_id SQLAlchemyTaskListRepository db0 1 = Some groceries
   \<and> tl_owner_id groceries = 1
   \<and> task_get_by_task_list SQLAlchemyTaskRepository db0 1 0 2 None None = [milk, eggs]
   \<and> list_all persisted_task [milk, eggs]
   \<and> (\<exists>results.
         list_tasks (task_service0 unavailable) 11 db0 1 assigned_to_bob first_two 1
           = (Inr results, db0)
       \<and> map (\<lambda>r. Some (tr_id r)) results = [Some 1]
       \<and> length results \<le> 2)"
  using list_tasks_page_then_filter [of "task_service0 unavailable" db0 1 1 first_two
      assigned_to_bob 11]
  by (simp add: fixtures assigned_to_bob_def first_two_def persisted_task_def truthy_int_def
      list_tasks_def apply_additional_filters_def TaskResponseDTO_of_def)

subsection \<open>The assignee 0\<close>

text \<open>Claim C10. A request with \<^verbatim>\<open>assigned_to = 0\<close> is handed to the repository without
  the check of the assignee. In \<^verbatim>\<open>create_task\<close>, for the owner of the list, the task built
  has the assignee 0, and when the repository returns it with an id the call succeeds with
  that assignee in its answer. In \<^verbatim>\<open>update_task\<close>, for the owner of the list of a persisted
  task, the task written has the assignee 0, and when the repository returns what it was
  given the call succeeds with that assignee in its answer. Neither statement asks
  anything of the user repository: no \<^verbatim>\<open>UserNotFoundError\<close> and no
  \<^verbatim>\<open>TaskAssignmentError\<close> is raised whether or not a user 0 exists.\<close>

theorem assigned_to_zero_is_not_validated:
  "(\<forall>task_list.
      task_list_get_by_id (ts_task_list_repository self) s task_list_id = Some task_list
      \<and> tl_owner_id task_list = user_id
      \<and> tc_assigned_to task_data = Some 0
      \<and> task_created_from (new_task now task_list_id task_data)
           (fst (task_create (ts_task_repository self) s (new_task now task_list_id task_data)))
      \<longrightarrow> t_assigned_to
             (fst (task_create (ts_task_repository self) s (new_task now task_list_id task_data)))
            = Some 0
        \<and> (\<exists>dto. create_task self now s task_list_id task_data user_id
                    = (Inr dto, snd (task_create (ts_task_repository self) s
                                       (new_task now task_list_id task_data)))
                 \<and> tr_assigned_to dto = Some 0))
   \<and> (\<forall>task task_list.
      task_get_by_id (ts_task_repository self) s task_id = Some task
      \<and> task_list_get_by_id (ts_task_list_repository self) s (t_task_list_id task) = Some task_list
      \<and> tl_owner_id task_list = user_id
      \<and> tu_assigned_to update_data = Some 0
      \<and> persisted_task task
      \<and> fst (task_update (ts_task_repository self) s (apply_task_update now task update_data))
          = apply_task_update now task update_data
      \<longrightarrow> t_assigned_to (apply_task_update now task update_data) = Some 0
        \<and> (\<exists>dto. update_task self now s task_id update_data user_id
                    = (Inr dto, snd (task_update (ts_task_repository self) s
                                       (apply_task_update now task update_data)))
                 \<and> tr_assigned_to dto = Some 0))"
proof (intro conjI allI impI; (elim conjE)?)
  fix task_list
  let ?created = "fst (task_create (ts_task_repository self) s (new_task now task_list_id task_data))"
  assume found: "task_list_get_by_id (ts_task_list_repository self) s task_list_id = Some task_list"
    and owner: "tl_owner_id task_list = user_id"
    and zero: "tc_assigned_to task_data = Some 0"
    and created: "task_created_from (new_task now task_list_id task_data) ?created"
  from created have eq: "?created = (new_task now task_list_id task_data)\<lparr>t_id := t_id ?created\<rparr>"
    and id: "t_id ?created \<noteq> None" by (simp_all add: task_created_from_def)
  from eq zero have "t_assigned_to ?created = t_assigned_to (new_task now task_list_id task_data)"
    by (metis Task.select_convs(7) Task.surjective Task.update_convs(1))
  with zero show a: "t_assigned_to ?created = Some 0" by (simp add: new_task_def)
  from eq have "t_created_at ?created = t_created_at (new_task now task_list_id task_data)"
    by (metis Task.select_convs(8) Task.surjective Task.update_convs(1))
  then have "t_created_at ?created = Some now" by (simp add: new_task_def)
  with id have "persisted_task ?created" by (simp add: persisted_task_def)
  from TaskResponseDTO_of_persisted [OF this, of now None] a obtain dto where
    "TaskResponseDTO_of now ?created None = Inr dto" "tr_assigned_to dto = Some 0" by auto
  then show "\<exists>dto. create_task self now s task_list_id task_data user_id
                    = (Inr dto, snd (task_create (ts_task_repository self) s
                                       (new_task now task_list_id task_data)))
                 \<and> tr_assigned_to dto = Some 0"
    using found owner zero a
    by (simp add: create_task_def verify_assignee_def truthy_int_def Let_def split_beta)
next
  fix task task_list
  let ?new = "apply_task_update now task update_data"
  assume found: "task_get_by_id (ts_task_repository self) s task_id = Some task"
    "task_list_get_by_id (ts_task_list_repository self) s (t_task_list_id task) = Some task_list"
    and owner: "tl_owner_id task_list = user_id"
    and zero: "tu_assigned_to update_data = Some 0"
    and p: "persisted_task task"
    and echo: "fst (task_update (ts_task_repository self) s ?new) = ?new"
  show a: "t_assigned_to ?new = Some 0"
    using zero by (simp add: apply_task_update_def Let_def split: option.splits)
  have "persisted_task ?new"
    using p by (simp add: persisted_task_def apply_task_update_def Let_def split: option.splits)
  from TaskResponseDTO_of_persisted [OF this, of now None] a obtain dto where
    "TaskResponseDTO_of now ?new None = Inr dto" "tr_assigned_to dto = Some 0" by auto
  then show "\<exists>dto. update_task self now s task_id update_data user_id
                    = (Inr dto, snd (task_update (ts_task_repository self) s ?new))
                 \<and> tr_assigned_to dto = Some 0"
    using found owner zero a echo
    by (simp add: update_task_def verify_assignee_def truthy_int_def Let_def split_beta)
qed

text \<open>The concrete installation has no user 0. The owner creates a task assigned to 0 and
  reassigns task 1 to 0: both calls succeed, and the stored tasks carry the assignee 0.\<close>

theorem assigned_to_zero_is_not_validated_witness:
  "user_get_by_id SQLAlchemyUserRepository db0 0 = None
   \<and> task_list_get_by_id SQLAlchemyTaskListRepository db0 1 = Some groceries
   \<and> tl_owner_id groceries = 1
   \<and> task_get_by_id SQLAlchemyTaskRepository db0 1 = Some milk
   \<and> (\<exists>dto s'. create_task (task_service0 (send_email_notification True)) 5 db0 1
                   (tea (Some 0)) 1 = (Inr dto, s')
         \<and> tr_assigned_to dto = Some 0
         \<and> map t_assigned_to (db_tasks s') = [Some 2, None, Some 2, Some 0])
   \<and> (\<exists>dto s'. update_task (task_service0 (send_email_notification True)) 5 db0 1
                   (reassign (Some 0)) 1 = (Inr dto, s')
         \<and> tr_assigned_to dto = Some 0
         \<and> map t_assigned_to (db_tasks s') = [Some 0, None, Some 2])"
  using assigned_to_zero_is_not_validated [of "task_service0 (send_email_notification True)"
      db0 1 1 "tea (Some 0)" 5 1 "reassign (Some 0)"]
  by (simp add: fixtures tea_def reassign_def persisted_task_def truthy_int_def
      create_task_def update_task_def verify_assignee_def new_task_def apply_task_update_def
      task_created_from_def TaskResponseDTO_of_def is_overdue_def Let_def)

subsection \<open>The check of the assignee\<close>

text \<open>For an \<^verbatim>\<open>assigned_to\<close> other than 0 the check is made: a missing user is a
  \<^verbatim>\<open>UserNotFoundError\<close>, an inactive one a \<^verbatim>\<open>TaskAssignmentError\<close>, and the call that fails
  so has written nothing.\<close>

lemma verify_assignee_nonzero:
  assumes "a \<noteq> 0"
  shows "verify_assignee self s (Some a) =
           (case user_get_by_id (ts_user_repository self) s a of
              None \<Rightarrow> Some (UserNotFoundError a)
            | Some assignee \<Rightarrow>
                if u_is_active assignee then None
                else Some (TaskAssignmentError ''Cannot assign task to inactive user''))"
  using assms by (simp add: verify_assignee_def split: option.splits)

lemma create_task_rejected_assignee:
  assumes "task_list_get_by_id (ts_task_list_repository self) s task_list_id = Some task_list"
    and "tl_owner_id task_list = user_id"
    and "verify_assignee self s (tc_assigned_to task_data) = Some e"
  shows "create_task self now s task_list_id task_data user_id = (Inl e, s)"
  using assms by (simp add: create_task_def)

lemma update_task_rejected_assignee:
  assumes "task_get_by_id (ts_task_repository self) s task_id = Some task"
    and "task_list_get_by_id (ts_task_list_repository self) s (t_task_list_id task) = Some task_list"
    and "tl_owner_id task_list = user_id"
    and "verify_assignee self s (tu_assigned_to update_data) = Some e"
  shows "update_task self now s task_id update_data user_id = (Inl e, s)"
  using assms by (simp add: update_task_def)

lemma assignment_validation_run:
  "create_task (task_service0 (send_email_notification True)) 5 db0 1 (tea (Some 9)) 1
     = (Inl (UserNotFoundError 9), db0)
   \<and> create_task (task_service0 (send_email_notification True)) 5 db0 1 (tea (Some 3)) 1
     = (Inl (TaskAssignmentError ''Cannot assign task to inactive user''), db0)
   \<and> update_task (task_service0 (send_email_notification True)) 5 db0 1 (reassign (Some 9)) 1
     = (Inl (UserNotFoundError 9), db0)
   \<and> update_task (task_service0 (send_email_notification True)) 5 db0 1 (reassign (Some 3)) 1
     = (Inl (TaskAssignmentError ''Cannot assign task to inactive user''), db0)"
  by (simp add: fixtures tea_def reassign_def create_task_def update_task_def verify_assignee_def)

text \<open>Claim C6. Creating or updating a task with an \<^verbatim>\<open>assigned_to\<close> that names no user
  should fail with \<^verbatim>\<open>UserNotFoundError\<close> and write nothing. The run below has no user 0
  and a request with \<^verbatim>\<open>assigned_to = 0\<close>: \<^verbatim>\<open>create_task\<close> returns the new task, and the
  state holds it with the assignee 0.\<close>

theorem create_task_assigned_to_zero_run:
  "user_get_by_id SQLAlchemyUserRepository db0 0 = None
   \<and> create_task (task_service0 (send_email_notification True)) 5 db0 1 (tea (Some 0)) 1
       = (Inr \<lparr>tr_id = 4, tr_title = ''Tea'', tr_description = None, tr_status = PENDING,
               tr_priority = MEDIUM, tr_task_list_id = 1, tr_assigned_to = Some 0,
               tr_created_at = 5, tr_updated_at = None, tr_due_date = None,
               tr_is_overdue = False, tr_assignee = None\<rparr>,
          db0\<lparr>db_tasks := [milk, eggs, bread, (new_task 5 1 (tea (Some 0)))\<lparr>t_id := Some 4\<rparr>],
              db_next_task_id := 5\<rparr>)"
  by (simp add: fixtures tea_def truthy_int_def create_task_def verify_assignee_def new_task_def
      TaskResponseDTO_of_def is_overdue_def Let_def)

subsection \<open>Notifications\<close>

text \<open>With the \<^verbatim>\<open>NotificationService\<close> of the sources the notification step cannot fail,
  enabled or not: its answer is dropped.\<close>

lemma send_assignment_notification_own_service:
  "ts_notification_service self = send_email_notification email_enabled \<Longrightarrow>
     send_assignment_notification self s task = Inr ()"
  by (simp add: send_assignment_notification_def send_email_notification_def Let_def
      split: option.splits)

text \<open>What an injected notification service raises leaves \<^verbatim>\<open>create_task\<close>, after the
  repository has stored the task.\<close>

lemma create_task_notification_raises:
  assumes "task_list_get_by_id (ts_task_list_repository self) s task_list_id = Some task_list"
    and "tl_owner_id task_list = user_id"
    and "verify_assignee self s (tc_assigned_to task_data) = None"
    and "task_create (ts_task_repository self) s (new_task now task_list_id task_data)
           = (created_task, s')"
    and "t_assigned_to created_task = Some a" and "a \<noteq> 0"
    and "user_get_by_id (ts_user_repository self) s' a = Some assignee"
    and "\<forall>notification. ts_notification_service self notification = Inl e"
  shows "create_task self now s task_list_id task_data user_id = (Inl e, s')"
  using assms
  by (simp add: create_task_def send_assignment_notification_def truthy_int_def Let_def)

text \<open>Claim C7. A failure of the notification call should not fail the creation or the
  update of the task. In the run below the notification service raises, as the mock of
  \<^verbatim>\<open>test_notification_error_handling\<close> does: \<^verbatim>\<open>create_task\<close> and \<^verbatim>\<open>update_task\<close> hand the
  task to the repository and then end with the exception of the notification service.\<close>

theorem create_task_notification_failure_run:
  "create_task (task_service0 unavailable) 5 db0 1 (tea (Some 2)) 1
     = (Inl (ForeignException ''Email service unavailable''),
        db0\<lparr>db_tasks := [milk, eggs, bread, (new_task 5 1 (tea (Some 2)))\<lparr>t_id := Some 4\<rparr>],
            db_next_task_id := 5\<rparr>)
   \<and> update_task (task_service0 unavailable) 5 db0 2 (reassign (Some 2)) 1
     = (Inl (ForeignException ''Email service unavailable''),
        db0\<lparr>db_tasks := [milk, eggs\<lparr>t_assigned_to := Some 2, t_updated_at := Some 5\<rparr>, bread]\<rparr>)"
  by (simp add: fixtures tea_def reassign_def truthy_int_def create_task_def update_task_def
      verify_assignee_def new_task_def TaskResponseDTO_of_def is_overdue_def
      send_assignment_notification_def apply_task_update_def Let_def)

subsection \<open>The completion percentage\<close>

lemma completed_tasks_length:
  "completed_tasks tasks = length (filter (\<lambda>task. t_status task = COMPLETED) tasks)"
  by (simp add: completed_tasks_def sum_list_triv)

text \<open>Over the tasks it is given the percentage is the ratio asked for: \<open>0\<close> for no task,
  \<open>100 * K / N\<close> otherwise, in the entity's method and in the services alike.\<close>

lemma calculate_completion_percentage_ratio:
  "calculate_completion_percentage task_list =
     (if tl_tasks task_list = [] then 0
      else 100 * real (length (filter (\<lambda>task. t_status task = COMPLETED) (tl_tasks task_list)))
             / real (length (tl_tasks task_list)))"
  by (simp add: calculate_completion_percentage_def completed_tasks_length)

lemma completion_percentage_of_ratio:
  "completion_percentage_of tasks =
     (if tasks = [] then 0
      else 100 * real (length (filter (\<lambda>task. t_status task = COMPLETED) tasks))
             / real (length tasks))"
  by (simp add: completion_percentage_of_def completed_tasks_length)

lemma completion_percentage_of_one_in_three:
  "completion_percentage_of [milk, eggs, bread] = 100 / 3"
  by (simp add: completion_percentage_of_def completed_tasks_def milk_def eggs_def bread_def)

text \<open>The tasks \<^verbatim>\<open>get_task_list\<close> gives it are those of one call of
  \<^verbatim>\<open>get_by_task_list\<close> with the task list id alone, the first page of the default size.\<close>

lemma get_task_list_completion_percentage:
  assumes "get_task_list self now s task_list_id user_id = (Inr dto, s')"
  shows "tlw_completion_percentage dto =
           completion_percentage_of
             (task_get_by_task_list (tls_task_repository self) s task_list_id
                default_skip default_limit None None)"
  using assms
  by (auto simp: get_task_list_def TaskListWithTasksDTO_of_def Let_def
      split: option.splits if_splits sum.splits)

lemma page_many:
  "task_get_by_task_list SQLAlchemyTaskRepository db_many 1 default_skip default_limit None None
     = map (\<lambda>i. milk\<lparr>t_id := Some (int i)\<rparr>) [1..<101]"
  by (simp add: SQLAlchemyTaskRepository_def db_many_def default_skip_def default_limit_def
      milk_def eggs_def db0_def filter_map comp_def del: upt_rec_numeral)

text \<open>Claim C5. The completion percentage of a task list should be \<open>100 * K / N\<close> for the
  \<open>N\<close> tasks of the list, \<open>K\<close> of them completed. The list of the run below has 101 tasks,
  the last one completed, so the percentage asked for is \<open>100 / 101\<close>: \<^verbatim>\<open>get_task_list\<close>
  answers with the 100 tasks of the first page and the percentage \<open>0\<close>.\<close>

theorem get_task_list_first_page_only_run:
  "length (filter (\<lambda>task. t_task_list_id task = 1) (db_tasks db_many)) = 101
   \<and> length (filter (\<lambda>task. t_task_list_id task = 1 \<and> t_status task = COMPLETED)
               (db_tasks db_many)) = 1
   \<and> (\<exists>dto. get_task_list task_list_service0 11 db_many 1 1 = (Inr dto, db_many)
          \<and> tlw_completion_percentage dto = 0
          \<and> length (tlw_tasks dto) = 100)"
proof -
  let ?page = "map (\<lambda>i. milk\<lparr>t_id := Some (int i)\<rparr>) [1..<101]"
  have p: "list_all persisted_task ?page"
    by (simp add: list_all_iff persisted_task_def milk_def del: upt_rec_numeral)
  from task_response_list_persisted [OF p, of 11] obtain rs where
    rs: "task_response_list 11 ?page = Inr rs" "map (\<lambda>r. Some (tr_id r)) rs = map t_id ?page"
    by blast
  from rs(2) have "length rs = length ?page" by (metis length_map)
  then have len: "length rs = 100" by (simp del: upt_rec_numeral)
  have c: "completion_percentage_of ?page = 0"
    by (simp add: completion_percentage_of_def completed_tasks_def milk_def filter_map comp_def
        del: upt_rec_numeral)
  have l: "task_list_get_by_id (tls_task_list_repository task_list_service0) db_many 1
             = Some groceries"
    by (simp add: fixtures db_many_def)
  have "get_task_list task_list_service0 11 db_many 1 1
         = (TaskListWithTasksDTO_of groceries 0 rs, db_many)"
    using page_many rs(1) c l
    by (simp add: get_task_list_def task_list_service0_def groceries_def del: upt_rec_numeral)
  then have "\<exists>dto. get_task_list task_list_service0 11 db_many 1 1 = (Inr dto, db_many)
          \<and> tlw_completion_percentage dto = 0 \<and> length (tlw_tasks dto) = 100"
    using len by (simp add: TaskListWithTasksDTO_of_def groceries_def)
  moreover have "length (filter (\<lambda>task. t_task_list_id task = 1) (db_tasks db_many)) = 101"
    by (simp add: db_many_def db0_def milk_def eggs_def filter_map comp_def
        del: upt_rec_numeral)
  moreover have "length (filter (\<lambda>task. t_task_list_id task = 1 \<and> t_status task = COMPLETED)
               (db_tasks db_many)) = 1"
    by (simp add: db_many_def db0_def milk_def eggs_def filter_map comp_def
        del: upt_rec_numeral)
  ultimately show ?thesis by blast
qed

end
